theory Spec2Isabelle
  imports Main "HOL-Library.AList"
begin

section \<open>The asyncio Engine.IO server (engineio/asyncio_server.py)\<close>

text \<open>
  A shallow embedding of \<^verbatim>\<open>AsyncServer\<close>: \<^verbatim>\<open>send\<close>, \<^verbatim>\<open>disconnect\<close>,
  \<^verbatim>\<open>handle_request\<close>, \<^verbatim>\<open>_handle_connect\<close> and \<^verbatim>\<open>_trigger_event\<close>.
  The server object is a record that every operation takes and returns; an exception is
  the \<open>Inl\<close> of a sum, and the server returned beside it is the state the exception
  leaves behind. A leading underscore of a Python name is dropped
  (\<^verbatim>\<open>_handle_connect\<close> is \<open>handle_connect\<close>).

  Strings are lists of 8-bit characters, read as the code points below 256.
\<close>

subsection \<open>Data\<close>

type_synonym sid = string
type_synonym header = "string \<times> string"

text \<open>
  The normalized request \<^verbatim>\<open>self._async['translate_request'](*args, **kwargs)\<close>
  returns: a dictionary of strings.
\<close>

type_synonym environ = "string \<rightharpoonup> string"

text \<open>
  The result of \<^verbatim>\<open>urllib.parse.parse_qs\<close>: every key it holds maps to a list of
  at least one value, kept here as the first value and the rest, so that
  \<^verbatim>\<open>query[k][0]\<close> is the first component.
\<close>

type_synonym query = "string \<rightharpoonup> (string \<times> string list)"

text \<open>
  Exceptions. \<open>IOError\<close> and \<open>ValueError\<close> are the two classes the source catches
  (each stands for the class with its subclasses), \<open>KeyError\<close> is what a dictionary
  lookup and \<^verbatim>\<open>_get_socket\<close> raise, \<open>OtherError\<close> is any other exception.
\<close>

datatype exn = IOError | ValueError | KeyError | OtherError string

datatype packet_type = OPEN | CLOSE | PING | PONG | MESSAGE | UPGRADE | NOOP

text \<open>
  A packet's data: the dictionary of the OPEN packet (sid, upgrades, pingTimeout,
  pingInterval) or the data of a message.
\<close>

datatype payload = OpenInfo sid "string list" int int | Message string

record packet =
  ptype :: packet_type
  data :: payload
  binary :: "bool option"

text \<open>The response dictionary with the keys status, headers and response.\<close>

record descriptor =
  status :: nat
  headers :: "header list"
  response :: string

text \<open>
  The Python values that reach a type test of the source: \<^verbatim>\<open>None\<close>, a boolean, a
  list of packets, a response dictionary, and any other object (of the hosting
  framework; such an object is true in a condition).
\<close>

datatype pyval = PyNone | PyBool bool | PyList "packet list" | PyDict descriptor | PyObj nat

fun truthy :: "pyval \<Rightarrow> bool" where
  "truthy PyNone = False"
| "truthy (PyBool b) = b"
| "truthy (PyList ps) = (ps \<noteq> [])"
| "truthy (PyDict d) = True"
| "truthy (PyObj n) = True"

text \<open>
  What \<^verbatim>\<open>handle_request\<close> returns: the dispatcher's value as it is, or the response
  the adapter builds, \<^verbatim>\<open>self._async['make_response'](status, headers, body)\<close>,
  kept as its three arguments.
\<close>

datatype http_result = Passthrough pyval | Response nat "header list" string

text \<open>
  The session socket (asyncio_socket.AsyncSocket, an external collaborator): the two
  flags this file reads or writes, and the rest of its state.
\<close>

record 'q socket =
  connected :: bool
  closed :: bool
  inner :: 'q

text \<open>
  An event handler registered by the application: whether it is a coroutine function,
  and what a call of it with \<^verbatim>\<open>(sid, environ)\<close> raises or returns.
\<close>

datatype handler = Handler (is_coroutine: bool) (run: "sid \<Rightarrow> environ \<Rightarrow> exn + pyval")

text \<open>
  The log of what the server does to the outside, in order: a warning of its logger, or a
  call of a socket method or of an event handler. A call is recorded with the keys of the
  session table at the moment it is made, which is what a request running during the
  call's suspension finds there.
\<close>

datatype call =
  Send sid packet | Poll sid | Get sid | Post sid | Close sid | Invoke string sid

datatype event = Warning string | Call call "sid list"

text \<open>
  The server object. \<open>sockets\<close> is the dictionary \<^verbatim>\<open>self.sockets\<close> in insertion
  order (the order \<^verbatim>\<open>six.itervalues\<close> follows); \<open>ping_timeout_ms\<close> and
  \<open>ping_interval_ms\<close> are \<^verbatim>\<open>int(self.ping_timeout * 1000)\<close> and
  \<^verbatim>\<open>int(self.ping_interval * 1000)\<close>.
\<close>

record 'q server =
  sockets :: "(sid \<times> 'q socket) list"
  handlers :: "string \<rightharpoonup> handler"
  http_compression :: bool
  compression_threshold :: nat
  compression_methods :: "string list"
  cookie :: "string option"
  ping_timeout_ms :: int
  ping_interval_ms :: int
  trace :: "event list"

text \<open>
  What the collaborators outside this file do during one call: the session id
  \<^verbatim>\<open>_generate_id()\<close> returns, the socket the constructor builds, the list
  \<^verbatim>\<open>_upgrades(sid, transport)\<close>, the socket's methods (each returns or raises, and
  leaves the socket object in a new state), the query parser, the payload encoder, the
  compressors (\<open>compress m\<close> is \<^verbatim>\<open>getattr(self, '_' + m)\<close>), the CORS headers and the
  bodies of the error responses.

  A call of a collaborator changes its own socket object and nothing else of the server:
  the session table is owned by the server and every change of it is the server's own
  (spec 3 and 5). What other requests do while a call is suspended is outside this model.
\<close>

record 'q ext =
  generate_id :: sid
  new_socket :: "sid \<Rightarrow> 'q socket"
  upgrades :: "sid \<Rightarrow> string \<Rightarrow> string list"
  socket_send :: "'q socket \<Rightarrow> packet \<Rightarrow> (exn + unit) \<times> 'q socket"
  socket_poll :: "'q socket \<Rightarrow> (exn + packet list) \<times> 'q socket"
  socket_get :: "'q socket \<Rightarrow> environ \<Rightarrow> (exn + pyval) \<times> 'q socket"
  socket_post :: "'q socket \<Rightarrow> environ \<Rightarrow> (exn + unit) \<times> 'q socket"
  socket_close :: "'q socket \<Rightarrow> (exn + unit) \<times> 'q socket"
  parse_qs :: "string \<Rightarrow> query"
  encode_payload :: "packet list \<Rightarrow> bool \<Rightarrow> string"
  compress :: "string \<Rightarrow> string \<Rightarrow> string"
  cors_headers :: "environ \<Rightarrow> header list"
  error_body :: "nat \<Rightarrow> string"

subsection \<open>The session table and the log\<close>

definition keys :: "'q server \<Rightarrow> sid list" where
  "keys srv = map fst (sockets srv)"

definition log :: "event \<Rightarrow> 'q server \<Rightarrow> 'q server" where
  "log e srv = srv\<lparr>trace := trace srv @ [e]\<rparr>"

definition warning :: "string \<Rightarrow> 'q server \<Rightarrow> 'q server" where
  "warning msg srv = log (Warning msg) srv"

definition called :: "call \<Rightarrow> 'q server \<Rightarrow> 'q server" where
  "called c srv = log (Call c (keys srv)) srv"

text \<open>
  \<^verbatim>\<open>self.sockets[sid] = s\<close>; also how the state a socket method leaves its object in
  reaches the table, the table holding that same object.
\<close>

definition store :: "sid \<Rightarrow> 'q socket \<Rightarrow> 'q server \<Rightarrow> 'q server" where
  "store k s srv = srv\<lparr>sockets := AList.update k s (sockets srv)\<rparr>"

text \<open>\<^verbatim>\<open>del self.sockets[sid]\<close>, at a key the table holds.\<close>

definition remove :: "sid \<Rightarrow> 'q server \<Rightarrow> 'q server" where
  "remove k srv = srv\<lparr>sockets := AList.delete k (sockets srv)\<rparr>"

text \<open>
  Modelled from the spec: \<^verbatim>\<open>server.Server._get_socket\<close> is not among the sources. The
  spec (4.5) gives \<^verbatim>\<open>get(sid) -> SessionSocket | NotFound\<close>; \<^verbatim>\<open>send\<close> catches its
  \<^verbatim>\<open>KeyError\<close>.
\<close>

definition get_socket :: "'q server \<Rightarrow> sid \<Rightarrow> exn + 'q socket" where
  "get_socket srv k = (case map_of (sockets srv) k of None \<Rightarrow> Inl KeyError | Some s \<Rightarrow> Inr s)"

text \<open>
  Modelled from the spec: \<^verbatim>\<open>_bad_request\<close>, \<^verbatim>\<open>_unauthorized\<close>,
  \<^verbatim>\<open>_method_not_found\<close> and \<^verbatim>\<open>_ok\<close> of \<^verbatim>\<open>server.Server\<close> are not among the
  sources. The spec (6, 7) gives their status codes: 400, 401, 405 and 200; a list of
  packets is wrapped into the body of a 200 response, with the headers passed in, and
  \<^verbatim>\<open>_ok()\<close> is an empty 200 acknowledgment (4.1).
\<close>

definition bad_request :: "'q ext \<Rightarrow> descriptor" where
  "bad_request x = \<lparr>status = 400, headers = [], response = error_body x 400\<rparr>"

definition unauthorized :: "'q ext \<Rightarrow> descriptor" where
  "unauthorized x = \<lparr>status = 401, headers = [], response = error_body x 401\<rparr>"

definition method_not_found :: "'q ext \<Rightarrow> descriptor" where
  "method_not_found x = \<lparr>status = 405, headers = [], response = error_body x 405\<rparr>"

definition ok :: "'q ext \<Rightarrow> packet list option \<Rightarrow> header list option \<Rightarrow> bool \<Rightarrow> descriptor" where
  "ok x packets hdrs b64 =
     (case packets of
        Some ps \<Rightarrow>
          \<lparr>status = 200,
           headers = (case hdrs of None \<Rightarrow> [] | Some h \<Rightarrow> h),
           response = encode_payload x ps b64\<rparr>
      | None \<Rightarrow> \<lparr>status = 200, headers = [], response = []\<rparr>)"

subsection \<open>send\<close>

definition send :: "'q ext \<Rightarrow> 'q server \<Rightarrow> sid \<Rightarrow> string \<Rightarrow> bool option \<Rightarrow> (exn + unit) \<times> 'q server" where
  "send x srv k dat bin =
     (case get_socket srv k of
        Inl e \<Rightarrow>
          (if e = KeyError then (Inr (), warning (''Cannot send to sid '' @ k) srv)
           else (Inl e, srv))
      | Inr socket \<Rightarrow>
          (let pkt = \<lparr>ptype = MESSAGE, data = Message dat, binary = bin\<rparr>;
               (sent, socket') = socket_send x socket pkt
           in (sent, store k socket' (called (Send k pkt) srv))))"

subsection \<open>disconnect\<close>

text \<open>
  The loop \<^verbatim>\<open>for client in six.itervalues(self.sockets): client.close()\<close> over the
  entries of the table, in order. A \<^verbatim>\<open>close\<close> that raises ends the loop: the source
  has no handler around it.
\<close>

fun close_each :: "'q ext \<Rightarrow> 'q server \<Rightarrow> (sid \<times> 'q socket) list \<Rightarrow> (exn + unit) \<times> 'q server" where
  "close_each x srv [] = (Inr (), srv)"
| "close_each x srv ((k, client) # rest) =
     (let (shut, client') = socket_close x client;
          srv' = store k client' (called (Close k) srv)
      in case shut of Inl e \<Rightarrow> (Inl e, srv') | Inr u \<Rightarrow> close_each x srv' rest)"

definition disconnect :: "'q ext \<Rightarrow> 'q server \<Rightarrow> sid option \<Rightarrow> (exn + unit) \<times> 'q server" where
  "disconnect x srv sido =
     (case sido of
        Some k \<Rightarrow>
          (case get_socket srv k of
             Inl e \<Rightarrow> (Inl e, srv)
           | Inr socket \<Rightarrow>
               (let (shut, socket') = socket_close x socket;
                    srv' = store k socket' (called (Close k) srv)
                in case shut of Inl e \<Rightarrow> (Inl e, srv') | Inr u \<Rightarrow> (Inr (), remove k srv')))
      | None \<Rightarrow>
          (case close_each x srv (sockets srv) of
             (Inl e, srv') \<Rightarrow> (Inl e, srv')
           | (Inr u, srv') \<Rightarrow> (Inr (), srv'\<lparr>sockets := []\<rparr>)))"

subsection \<open>_trigger_event\<close>

text \<open>
  Neither branch of the source has a \<^verbatim>\<open>return\<close>: the handler is called (awaited when
  it is a coroutine function), what it returns is dropped, and the function returns
  \<^verbatim>\<open>None\<close>. An exception of the handler is not caught.
\<close>

definition trigger_event :: "'q server \<Rightarrow> string \<Rightarrow> sid \<Rightarrow> environ \<Rightarrow> (exn + pyval) \<times> 'q server" where
  "trigger_event srv ev k environ =
     (case handlers srv ev of
        None \<Rightarrow> (Inr PyNone, srv)
      | Some h \<Rightarrow>
          (let srv' = called (Invoke ev k) srv in
           if is_coroutine h then
             (case run h k environ of Inl e \<Rightarrow> (Inl e, srv') | Inr v \<Rightarrow> (Inr PyNone, srv'))
           else
             (case run h k environ of Inl e \<Rightarrow> (Inl e, srv') | Inr v \<Rightarrow> (Inr PyNone, srv'))))"

subsection \<open>_handle_connect\<close>

text \<open>\<^verbatim>\<open>if self.cookie:\<close> holds for a cookie name that is neither \<^verbatim>\<open>None\<close> nor empty.\<close>

definition cookie_headers :: "'q server \<Rightarrow> sid \<Rightarrow> header list option" where
  "cookie_headers srv k =
     (case cookie srv of
        None \<Rightarrow> None
      | Some c \<Rightarrow> if c = [] then None else Some [(''Set-Cookie'', c @ ''='' @ k)])"

text \<open>Lines 145 to 149: the OPEN packet.\<close>

definition open_packet :: "'q ext \<Rightarrow> 'q server \<Rightarrow> sid \<Rightarrow> string \<Rightarrow> packet" where
  "open_packet x srv k transport =
     \<lparr>ptype = OPEN,
      data = OpenInfo k (upgrades x k transport) (ping_timeout_ms srv) (ping_interval_ms srv),
      binary = None\<rparr>"

definition handle_connect :: "'q ext \<Rightarrow> 'q server \<Rightarrow> environ \<Rightarrow> string \<Rightarrow> bool \<Rightarrow> (exn + pyval) \<times> 'q server" where
  "handle_connect x srv environ transport b64 =
     (let k = generate_id x;
          s = new_socket x k;
          srv1 = store k s srv;
          pkt = open_packet x srv1 k transport;
          (sent, s1) = socket_send x s pkt;
          srv2 = store k s1 (called (Send k pkt) srv1)
      in case sent of
           Inl e \<Rightarrow> (Inl e, srv2)
         | Inr u \<Rightarrow>
             (case trigger_event srv2 ''connect'' k environ of
                (Inl e, srv3) \<Rightarrow> (Inl e, srv3)
              | (Inr v, srv3) \<Rightarrow>
                  if v = PyBool False then
                    (Inr (PyDict (unauthorized x)),
                     remove k (warning ''Application rejected connection'' srv3))
                  else if transport = ''websocket'' then
                    (let (got, s2) = socket_get x s1 environ
                     in (got, store k s2 (called (Get k) srv3)))
                  else
                    (let s2 = s1\<lparr>connected := True\<rparr>;
                         hdrs = cookie_headers srv3 k;
                         (polled, s3) = socket_poll x s2;
                         srv4 = store k s3 (called (Poll k) (store k s2 srv3))
                     in case polled of
                          Inl e \<Rightarrow> (Inl e, srv4)
                        | Inr packets \<Rightarrow> (Inr (PyDict (ok x (Some packets) hdrs b64)), srv4))))"

subsection \<open>handle_request\<close>

text \<open>
  \<^verbatim>\<open>str.lower\<close>, as far as the comparison with \<^verbatim>\<open>"true"\<close> needs it: the letters A
  to Z are folded, and no other character folds to a letter of that word.
\<close>

definition lower_char :: "char \<Rightarrow> char" where
  "lower_char c =
     (case map_of (zip ''ABCDEFGHIJKLMNOPQRSTUVWXYZ'' ''abcdefghijklmnopqrstuvwxyz'') c of
        None \<Rightarrow> c
      | Some d \<Rightarrow> d)"

definition lower :: "string \<Rightarrow> string" where
  "lower s = map lower_char s"

text \<open>\<^verbatim>\<open>s.split(c)\<close> for a separator of one character: never an empty list.\<close>

fun split :: "char \<Rightarrow> string \<Rightarrow> string list" where
  "split c [] = [[]]"
| "split c (a # s) =
     (if a = c then [] # split c s
      else (case split c s of [] \<Rightarrow> [[a]] | w # ws \<Rightarrow> (a # w) # ws))"

text \<open>
  \<^verbatim>\<open>s.strip()\<close>: the white space of a Python string among the code points below 256 is
  9 to 13, 28 to 32, 133 and 160.
\<close>

definition is_space :: "char \<Rightarrow> bool" where
  "is_space c =
     (let n = (of_char c :: nat)
      in (9 \<le> n \<and> n \<le> 13) \<or> (28 \<le> n \<and> n \<le> 32) \<or> n = 133 \<or> n = 160)"

definition strip :: "string \<Rightarrow> string" where
  "strip s = rev (dropWhile is_space (rev (dropWhile is_space s)))"

text \<open>
  \<^verbatim>\<open>[e.split(';')[0].strip() for e in environ.get('ACCEPT_ENCODING', '').split(',')]\<close>
\<close>

definition encodings :: "environ \<Rightarrow> string list" where
  "encodings environ =
     map (\<lambda>e. strip (case split CHR '';'' e of [] \<Rightarrow> [] | w # ws \<Rightarrow> w))
       (split CHR '','' (case environ ''ACCEPT_ENCODING'' of None \<Rightarrow> [] | Some a \<Rightarrow> a))"

text \<open>
  The loop over the request's encodings (lines 122 to 127): the first one that is among
  the server's methods compresses the body and adds the header, and ends the loop.
\<close>

fun compress_first :: "'q ext \<Rightarrow> string list \<Rightarrow> descriptor \<Rightarrow> string list \<Rightarrow> descriptor" where
  "compress_first x methods r [] = r"
| "compress_first x methods r (encoding # rest) =
     (if encoding \<in> set methods then
        r\<lparr>response := compress x encoding (response r),
          headers := headers r @ [(''Content-Encoding'', encoding)]\<rparr>
      else compress_first x methods r rest)"

text \<open>Lines 118 to 127.\<close>

definition compress_response :: "'q ext \<Rightarrow> 'q server \<Rightarrow> environ \<Rightarrow> descriptor \<Rightarrow> descriptor" where
  "compress_response x srv environ r =
     (if http_compression srv \<and> length (response r) \<ge> compression_threshold srv then
        compress_first x (compression_methods srv) r (encodings environ)
      else r)"

text \<open>
  \<^verbatim>\<open>if sid in self.sockets and self.sockets[sid].closed: del self.sockets[sid]\<close>
\<close>

definition purge_closed :: "sid \<Rightarrow> 'q server \<Rightarrow> 'q server" where
  "purge_closed k srv =
     (case map_of (sockets srv) k of
        None \<Rightarrow> srv
      | Some s \<Rightarrow> if closed s then remove k srv else srv)"

text \<open>GET with a sid (lines 85 to 101).\<close>

definition get_session :: "'q ext \<Rightarrow> 'q server \<Rightarrow> environ \<Rightarrow> sid \<Rightarrow> bool \<Rightarrow> (exn + pyval) \<times> 'q server" where
  "get_session x srv environ k b64 =
     (if k \<notin> set (keys srv) then
        (Inr (PyDict (bad_request x)), warning (''Invalid session '' @ k) srv)
      else
        (case get_socket srv k of
           Inl e \<Rightarrow> (Inl e, srv)
         | Inr socket \<Rightarrow>
             (let (got, socket') = socket_get x socket environ;
                  srv' = store k socket' (called (Get k) srv)
              in case got of
                   Inr packets \<Rightarrow>
                     (Inr (case packets of
                             PyList ps \<Rightarrow> PyDict (ok x (Some ps) None b64)
                           | _ \<Rightarrow> packets),
                      purge_closed k srv')
                 | Inl e \<Rightarrow>
                     if e = IOError then
                       (Inr (PyDict (bad_request x)),
                        purge_closed k (if k \<in> set (keys srv') then remove k srv' else srv'))
                     else (Inl e, srv'))))"

text \<open>
  POST (lines 103 to 112). The test \<^verbatim>\<open>sid is None or sid not in self.sockets\<close> is
  written as its two cases; \<^verbatim>\<open>'%s' % None\<close> is \<^verbatim>\<open>'None'\<close>.
\<close>

definition post_session :: "'q ext \<Rightarrow> 'q server \<Rightarrow> environ \<Rightarrow> sid option \<Rightarrow> (exn + pyval) \<times> 'q server" where
  "post_session x srv environ sido =
     (case sido of
        None \<Rightarrow> (Inr (PyDict (bad_request x)), warning ''Invalid session None'' srv)
      | Some k \<Rightarrow>
          if k \<notin> set (keys srv) then
            (Inr (PyDict (bad_request x)), warning (''Invalid session '' @ k) srv)
          else
            (case get_socket srv k of
               Inl e \<Rightarrow> (Inl e, srv)
             | Inr socket \<Rightarrow>
                 (let (posted, socket') = socket_post x socket environ;
                      srv' = store k socket' (called (Post k) srv)
                  in case posted of
                       Inr u \<Rightarrow> (Inr (PyDict (ok x None None False)), srv')
                     | Inl e \<Rightarrow>
                         if e = ValueError then (Inr (PyDict (bad_request x)), srv')
                         else (Inl e, srv'))))"

text \<open>\<^verbatim>\<open>query['sid'][0] if 'sid' in query else None\<close>\<close>

definition sid_of :: "query \<Rightarrow> sid option" where
  "sid_of q = (case q ''sid'' of None \<Rightarrow> None | Some (v, vs) \<Rightarrow> Some v)"

text \<open>Lines 71 to 74: the flag \<^verbatim>\<open>b64\<close>.\<close>

definition b64_of :: "query \<Rightarrow> bool" where
  "b64_of q = (case q ''b64'' of None \<Rightarrow> False | Some (v, vs) \<Rightarrow> v = ''1'' \<or> lower v = ''true'')"

text \<open>\<^verbatim>\<open>query.get('transport', ['polling'])[0]\<close>\<close>

definition transport_of :: "query \<Rightarrow> string" where
  "transport_of q = (case q ''transport'' of None \<Rightarrow> ''polling'' | Some (v, vs) \<Rightarrow> v)"

text \<open>Lines 66 to 115: the value \<^verbatim>\<open>r\<close>.\<close>

definition dispatch :: "'q ext \<Rightarrow> 'q server \<Rightarrow> environ \<Rightarrow> string \<Rightarrow> query \<Rightarrow> (exn + pyval) \<times> 'q server" where
  "dispatch x srv environ meth q =
     (if q ''j'' \<noteq> None then
        (Inr (PyDict (bad_request x)), warning ''JSONP requests are not supported'' srv)
      else
        (let sido = sid_of q;
             b64 = b64_of q
         in if meth = ''GET'' then
              (case sido of
                 None \<Rightarrow>
                   (let transport = transport_of q
                    in if transport \<noteq> ''polling'' \<and> transport \<noteq> ''websocket'' then
                         (Inr (PyDict (bad_request x)),
                          warning (''Invalid transport '' @ transport) srv)
                       else handle_connect x srv environ transport b64)
               | Some k \<Rightarrow> get_session x srv environ k b64)
            else if meth = ''POST'' then post_session x srv environ sido
            else
              (Inr (PyDict (method_not_found x)),
               warning (''Method '' @ meth @ '' not supported'') srv)))"

text \<open>\<^verbatim>\<open>isinstance(r, dict)\<close>\<close>

fun is_dict :: "pyval \<Rightarrow> bool" where
  "is_dict (PyDict d) = True"
| "is_dict r = False"

text \<open>
  Lines 116 to 131: a value that is not a dictionary is returned as \<^verbatim>\<open>r or []\<close>; a
  dictionary is compressed, gets the CORS headers and goes through
  \<^verbatim>\<open>make_response\<close>.
\<close>

definition finalize :: "'q ext \<Rightarrow> 'q server \<Rightarrow> environ \<Rightarrow> pyval \<Rightarrow> http_result" where
  "finalize x srv environ r =
     (case r of
        PyDict d \<Rightarrow>
          (let d' = compress_response x srv environ d
           in Response (status d') (headers d' @ cors_headers x environ) (response d'))
      | _ \<Rightarrow> Passthrough (if truthy r then r else PyList []))"

text \<open>\<^verbatim>\<open>environ.get('QUERY_STRING', '')\<close>\<close>

definition query_string :: "environ \<Rightarrow> string" where
  "query_string environ = (case environ ''QUERY_STRING'' of None \<Rightarrow> [] | Some qs \<Rightarrow> qs)"

text \<open>
  The whole of \<^verbatim>\<open>handle_request\<close>, from the normalized request on:
  \<^verbatim>\<open>environ['REQUEST_METHOD']\<close> raises \<^verbatim>\<open>KeyError\<close> when the key is missing, and an
  exception of the dispatcher's calls is not caught.
\<close>

definition handle_request :: "'q ext \<Rightarrow> 'q server \<Rightarrow> environ \<Rightarrow> (exn + http_result) \<times> 'q server" where
  "handle_request x srv environ =
     (case environ ''REQUEST_METHOD'' of
        None \<Rightarrow> (Inl KeyError, srv)
      | Some meth \<Rightarrow>
          (case dispatch x srv environ meth (parse_qs x (query_string environ)) of
             (Inl e, srv') \<Rightarrow> (Inl e, srv')
           | (Inr r, srv') \<Rightarrow> (Inr (finalize x srv' environ r), srv')))"

subsection \<open>A server and its collaborators, for the examples\<close>

definition ex_ext :: "nat ext" where
  "ex_ext =
     \<lparr>generate_id = ''s1'',
      new_socket = (\<lambda>k. \<lparr>connected = False, closed = False, inner = 0\<rparr>),
      upgrades = (\<lambda>k t. if t = ''websocket'' then [] else [''websocket'']),
      socket_send = (\<lambda>s p. (Inr (), s\<lparr>inner := Suc (inner s)\<rparr>)),
      socket_poll = (\<lambda>s. (Inr [], s\<lparr>inner := 0\<rparr>)),
      socket_get = (\<lambda>s e. (Inr (PyList []), s\<lparr>inner := 0\<rparr>)),
      socket_post = (\<lambda>s e. (Inr (), s)),
      socket_close = (\<lambda>s. (Inr (), s\<lparr>closed := True\<rparr>)),
      parse_qs = (\<lambda>qs. Map.empty),
      encode_payload = (\<lambda>ps b. replicate (length ps) CHR ''p''),
      compress = (\<lambda>m b. m @ '':'' @ b),
      cors_headers = (\<lambda>e. [(''Access-Control-Allow-Origin'', ''*'')]),
      error_body = (\<lambda>n. ''error'')\<rparr>"

definition ex_server :: "nat server" where
  "ex_server =
     \<lparr>sockets = [(''a'', \<lparr>connected = True, closed = False, inner = 0\<rparr>),
                 (''b'', \<lparr>connected = True, closed = False, inner = 2\<rparr>)],
      handlers = Map.empty,
      http_compression = True,
      compression_threshold = 4,
      compression_methods = [''gzip'', ''deflate''],
      cookie = Some ''io'',
      ping_timeout_ms = 60000,
      ping_interval_ms = 25000,
      trace = []\<rparr>"

text \<open>
  A stand-in for the query parser on the query strings of the examples, and the
  normalized request for a method and a query string.
\<close>

definition ex_parse_qs :: "string \<Rightarrow> query" where
  "ex_parse_qs qs =
     (if qs = ''sid=a'' then [''sid'' \<mapsto> (''a'', [])]
      else if qs = ''sid=zz'' then [''sid'' \<mapsto> (''zz'', [])]
      else if qs = ''transport=udp'' then [''transport'' \<mapsto> (''udp'', [])]
      else if qs = ''transport=websocket'' then [''transport'' \<mapsto> (''websocket'', [])]
      else Map.empty)"

definition ex_request :: "string \<Rightarrow> string \<Rightarrow> environ" where
  "ex_request meth qs = [''REQUEST_METHOD'' \<mapsto> meth, ''QUERY_STRING'' \<mapsto> qs]"

text \<open>
  The example server with a connect handler that returns the value \<open>v\<close>; \<open>co\<close> says
  whether the handler is a coroutine function.
\<close>

definition ex_handlers :: "pyval \<Rightarrow> bool \<Rightarrow> nat server" where
  "ex_handlers v co = ex_server\<lparr>handlers := [''connect'' \<mapsto> Handler co (\<lambda>k e. Inr v)]\<rparr>"

text \<open>The collaborators with a parser that finds the JSONP marker in the query.\<close>

definition ex_jsonp :: "nat ext" where
  "ex_jsonp = ex_ext\<lparr>parse_qs := (\<lambda>qs. [''j'' \<mapsto> (''1'', [])])\<rparr>"

text \<open>The collaborators with a \<^verbatim>\<open>close\<close> that raises for the socket of sid b.\<close>

definition ex_close_fails :: "nat ext" where
  "ex_close_fails =
     ex_ext\<lparr>socket_close :=
       (\<lambda>s. if inner s = 2 then (Inl (OtherError ''boom''), s) else (Inr (), s\<lparr>closed := True\<rparr>))\<rparr>"

text \<open>
  The collaborators with a \<^verbatim>\<open>send\<close> that raises, and the example server with a connect
  handler that raises.
\<close>

definition ex_send_fails :: "nat ext" where
  "ex_send_fails = ex_ext\<lparr>socket_send := (\<lambda>s p. (Inl IOError, s\<lparr>inner := 9\<rparr>))\<rparr>"

definition ex_handler_raises :: "nat server" where
  "ex_handler_raises =
     ex_server\<lparr>handlers := [''connect'' \<mapsto> Handler False (\<lambda>k e. Inl (OtherError ''no''))]\<rparr>"

text \<open>A request that names its encodings, deflate first.\<close>

definition ex_accept :: environ where
  "ex_accept = [''REQUEST_METHOD'' \<mapsto> ''GET'', ''QUERY_STRING'' \<mapsto> ''sid=zz'',
                ''ACCEPT_ENCODING'' \<mapsto> ''deflate;q=0.5, gzip'']"

subsection \<open>The negotiation as the spec states it\<close>

text \<open>
  The method the spec's sentence names (4.3, "first match in that configured order
  wins"): the first of the server's methods, in the configured order, that is among the
  request's encodings. It follows the spec's words, not the source, whose loop is
  \<open>compress_first\<close>.
\<close>

definition spec_first_match :: "string list \<Rightarrow> string list \<Rightarrow> string option" where
  "spec_first_match methods accepted = find (\<lambda>m. m \<in> set accepted) methods"

section \<open>Properties\<close>

subsection \<open>Facts about the session table and the log\<close>

lemma not_key: "k \<notin> set (keys srv) \<Longrightarrow> map_of (sockets srv) k = None"
  by (simp add: keys_def map_of_eq_None_iff)

lemma in_key: "map_of (sockets srv) k = Some s \<Longrightarrow> k \<in> set (keys srv)"
  by (auto simp: keys_def dest: map_of_SomeD intro: rev_image_eqI)

lemma key_store: "k \<in> set (keys (store k s srv))"
  by (simp add: keys_def store_def update_keys)

lemma keys_store: "k \<in> set (keys srv) \<Longrightarrow> keys (store k s srv) = keys srv"
  by (simp add: keys_def store_def update_keys)

lemma map_of_store: "map_of (sockets (store k s srv)) = (map_of (sockets srv))(k \<mapsto> s)"
  by (simp add: store_def update_conv')

lemma keys_store_in: "k \<in> set (keys srv) \<Longrightarrow> k \<in> set (keys (store k' s srv))"
  by (simp add: keys_def store_def update_keys)

lemma keys_called [simp]: "keys (called c srv) = keys srv"
  by (simp add: keys_def called_def log_def)

lemma keys_remove: "k \<notin> set (keys (remove k srv))"
  by (simp add: keys_def remove_def delete_keys)

lemma sockets_log [simp]: "sockets (log e srv) = sockets srv"
  by (simp add: log_def)

lemma sockets_warning [simp]: "sockets (warning m srv) = sockets srv"
  by (simp add: warning_def)

lemma sockets_called [simp]: "sockets (called c srv) = sockets srv"
  by (simp add: called_def)

lemma trace_warning [simp]: "trace (warning m srv) = trace srv @ [Warning m]"
  by (simp add: warning_def log_def)

lemma trace_store [simp]: "trace (store k s srv) = trace srv"
  by (simp add: store_def)

lemma trace_called [simp]: "trace (called c srv) = trace srv @ [Call c (keys srv)]"
  by (simp add: called_def log_def)

lemma handlers_store [simp]: "handlers (store k s srv) = handlers srv"
  by (simp add: store_def)

lemma handlers_called [simp]: "handlers (called c srv) = handlers srv"
  by (simp add: called_def log_def)

lemma purge_closed_absent: "k \<notin> set (keys srv) \<Longrightarrow> purge_closed k srv = srv"
  by (simp add: purge_closed_def not_key)

lemma status_bad_request [simp]: "status (bad_request x) = 400"
  by (simp add: bad_request_def)

subsection \<open>Facts about the loop of disconnect\<close>

lemma close_each_ok:
  "\<forall>(k, s) \<in> set al. fst (socket_close x s) = Inr () \<Longrightarrow>
   set (map fst al) \<subseteq> set (keys srv) \<Longrightarrow>
     fst (close_each x srv al) = Inr () \<and>
     keys (snd (close_each x srv al)) = keys srv \<and>
     trace (snd (close_each x srv al)) =
       trace srv @ map (\<lambda>k. Call (Close k) (keys srv)) (map fst al)"
proof (induction al arbitrary: srv)
  case Nil
  then show ?case by simp
next
  case (Cons p al)
  obtain k s where p: "p = (k, s)" by (cases p)
  obtain s' where c: "socket_close x s = (Inr (), s')"
    using Cons.prems(1) p by (cases "socket_close x s") auto
  let ?srv = "store k s' (called (Close k) srv)"
  have k: "keys ?srv = keys srv"
    using Cons.prems(2) p by (simp add: keys_store)
  have t: "trace ?srv = trace srv @ [Call (Close k) (keys srv)]"
    by (simp add: store_def called_def log_def)
  have step: "close_each x srv (p # al) = close_each x ?srv al"
    using p c by simp
  have ih: "fst (close_each x ?srv al) = Inr () \<and>
     keys (snd (close_each x ?srv al)) = keys ?srv \<and>
     trace (snd (close_each x ?srv al)) =
       trace ?srv @ map (\<lambda>k. Call (Close k) (keys ?srv)) (map fst al)"
    using Cons.prems k by (intro Cons.IH) auto
  show ?case
    unfolding step using ih by (simp add: k t p)
qed

lemma close_each_fail:
  "\<forall>(k', s') \<in> set pre. fst (socket_close x s') = Inr () \<Longrightarrow>
   fst (socket_close x s) = Inl e \<Longrightarrow>
   set (map fst (pre @ (k, s) # post)) \<subseteq> set (keys srv) \<Longrightarrow>
     fst (close_each x srv (pre @ (k, s) # post)) = Inl e \<and>
     keys (snd (close_each x srv (pre @ (k, s) # post))) = keys srv \<and>
     trace (snd (close_each x srv (pre @ (k, s) # post))) =
       trace srv @ map (\<lambda>k. Call (Close k) (keys srv)) (map fst pre @ [k])"
proof (induction pre arbitrary: srv)
  case Nil
  obtain s' where c: "socket_close x s = (Inl e, s')"
    using Nil.prems(2) by (cases "socket_close x s") auto
  have "k \<in> set (keys srv)"
    using Nil.prems(3) by simp
  then show ?case
    using c by (simp add: keys_store)
next
  case (Cons p pre)
  obtain k0 s0 where p: "p = (k0, s0)" by (cases p)
  obtain s0' where c: "socket_close x s0 = (Inr (), s0')"
    using Cons.prems(1) p by (cases "socket_close x s0") auto
  let ?srv = "store k0 s0' (called (Close k0) srv)"
  have k: "keys ?srv = keys srv"
    using Cons.prems(3) p by (simp add: keys_store)
  have t: "trace ?srv = trace srv @ [Call (Close k0) (keys srv)]"
    by simp
  have step: "close_each x srv ((p # pre) @ (k, s) # post) = close_each x ?srv (pre @ (k, s) # post)"
    using p c by simp
  have ih: "fst (close_each x ?srv (pre @ (k, s) # post)) = Inl e \<and>
     keys (snd (close_each x ?srv (pre @ (k, s) # post))) = keys ?srv \<and>
     trace (snd (close_each x ?srv (pre @ (k, s) # post))) =
       trace ?srv @ map (\<lambda>k. Call (Close k) (keys ?srv)) (map fst pre @ [k])"
    using Cons.prems k by (intro Cons.IH) auto
  show ?case
    unfolding step using ih by (simp add: k t p)
qed

subsection \<open>Facts about \<^verbatim>\<open>_trigger_event\<close>\<close>

lemma trigger_event_eq:
  "trigger_event srv ev k environ =
     (case handlers srv ev of
        None \<Rightarrow> (Inr PyNone, srv)
      | Some h \<Rightarrow>
          (case run h k environ of Inl e \<Rightarrow> Inl e | Inr v \<Rightarrow> Inr PyNone,
           called (Invoke ev k) srv))"
  by (simp add: trigger_event_def Let_def split: option.splits sum.splits)

lemma trigger_event_result:
  assumes "trigger_event srv ev k environ = (r, srv')"
  shows "(case r of Inl e \<Rightarrow> True | Inr v \<Rightarrow> v = PyNone) \<and>
     sockets srv' = sockets srv \<and>
     trace srv' = trace srv @ (case handlers srv ev of None \<Rightarrow> [] | Some h \<Rightarrow> [Call (Invoke ev k) (keys srv)])"
  using assms unfolding trigger_event_eq
  by (auto split: option.splits sum.splits)

lemma trigger_event_returns_None:
  "fst (trigger_event srv ev k environ) = Inr v \<Longrightarrow> v = PyNone"
  unfolding trigger_event_eq by (auto split: option.splits sum.splits)

subsection \<open>Facts about compression and the final response\<close>

lemma compress_first_find:
  "compress_first x ms r es =
     (case find (\<lambda>e. e \<in> set ms) es of
        None \<Rightarrow> r
      | Some e \<Rightarrow> r\<lparr>response := compress x e (response r),
                     headers := headers r @ [(''Content-Encoding'', e)]\<rparr>)"
  by (induction es) auto

lemma find_member_None: "(find (\<lambda>e. e \<in> set ms) es = None) = (set es \<inter> set ms = {})"
  by (auto simp: find_None_iff)

lemma status_compress_first: "status (compress_first x ms r es) = status r"
  by (induction es) auto

lemma status_compress_response: "status (compress_response x srv environ r) = status r"
  by (simp add: compress_response_def status_compress_first)

lemma finalize_dict:
  "finalize x srv environ (PyDict d) =
     Response (status d) (headers (compress_response x srv environ d) @ cors_headers x environ)
       (response (compress_response x srv environ d))"
  by (simp add: finalize_def Let_def status_compress_response)

subsection \<open>Evaluation\<close>

text \<open>The definitions of the model, for evaluating it on the examples.\<close>

lemmas model_defs =
  keys_def log_def warning_def called_def store_def remove_def get_socket_def bad_request_def
  unauthorized_def method_not_found_def ok_def send_def disconnect_def trigger_event_def
  cookie_headers_def open_packet_def handle_connect_def lower_def lower_char_def is_space_def strip_def
  encodings_def compress_response_def purge_closed_def get_session_def post_session_def
  sid_of_def b64_of_def transport_of_def dispatch_def finalize_def query_string_def
  handle_request_def

lemmas example_defs = ex_ext_def ex_server_def ex_parse_qs_def ex_request_def ex_accept_def ex_handlers_def ex_jsonp_def ex_close_fails_def
  ex_send_fails_def ex_handler_raises_def

subsection \<open>send to a session that is not there\<close>

text \<open>
  C10. A call of \<^verbatim>\<open>send\<close> with a sid that is not a key of the session table returns
  normally; the server it leaves is the one it found with one warning more in the log:
  the table is unchanged and no socket method was called.
\<close>

theorem send_unknown_sid:
  "k \<notin> set (keys srv) \<Longrightarrow>
     send x srv k dat bin = (Inr (), warning (''Cannot send to sid '' @ k) srv) \<and>
     sockets (snd (send x srv k dat bin)) = sockets srv \<and>
     trace (snd (send x srv k dat bin)) = trace srv @ [Warning (''Cannot send to sid '' @ k)]"
  by (simp add: send_def get_socket_def not_key warning_def log_def)

theorem send_unknown_sid_witness:
  "''zz'' \<notin> set (keys ex_server) \<and>
   send ex_ext ex_server ''zz'' ''hello'' None =
     (Inr (), warning ''Cannot send to sid zz'' ex_server) \<and>
   sockets (snd (send ex_ext ex_server ''zz'' ''hello'' None)) = sockets ex_server \<and>
   trace (snd (send ex_ext ex_server ''zz'' ''hello'' None)) = [Warning ''Cannot send to sid zz'']"
proof -
  have h: "''zz'' \<notin> set (keys ex_server)"
    by (simp add: keys_def ex_server_def)
  have t: "trace ex_server = []"
    by (simp add: ex_server_def)
  show ?thesis
    using h t send_unknown_sid [OF h, of ex_ext "''hello''" None]
    by (simp add: warning_def log_def)
qed

subsection \<open>GET with a sid that is not in the table\<close>

text \<open>
  C8. A GET request that carries a sid which is not a key of the session table is answered
  with status 400, and the session table is left as it was; all the server does is log one
  warning.
\<close>

theorem get_unknown_sid:
  "environ ''REQUEST_METHOD'' = Some ''GET'' \<Longrightarrow>
   sid_of (parse_qs x (query_string environ)) = Some k \<Longrightarrow>
   k \<notin> set (keys srv) \<Longrightarrow>
     (\<exists>hs b. fst (handle_request x srv environ) = Inr (Response 400 hs b)) \<and>
     sockets (snd (handle_request x srv environ)) = sockets srv \<and>
     (\<exists>m. trace (snd (handle_request x srv environ)) = trace srv @ [Warning m])"
  by (simp add: handle_request_def dispatch_def get_session_def finalize_dict)

theorem get_unknown_sid_witness:
  "fst (handle_request (ex_ext\<lparr>parse_qs := ex_parse_qs\<rparr>) ex_server (ex_request ''GET'' ''sid=zz''))
     = Inr (Response 400 [(''Access-Control-Allow-Origin'', ''*'')] ''error'') \<and>
   sockets (snd (handle_request (ex_ext\<lparr>parse_qs := ex_parse_qs\<rparr>) ex_server (ex_request ''GET'' ''sid=zz'')))
     = sockets ex_server"
proof -
  let ?x = "ex_ext\<lparr>parse_qs := ex_parse_qs\<rparr>"
  let ?e = "ex_request ''GET'' ''sid=zz''"
  have m: "?e ''REQUEST_METHOD'' = Some ''GET''"
    by (simp add: ex_request_def)
  have q: "sid_of (parse_qs ?x (query_string ?e)) = Some ''zz''"
    by (simp add: ex_request_def query_string_def ex_parse_qs_def sid_of_def)
  have k: "''zz'' \<notin> set (keys ex_server)"
    by (simp add: keys_def ex_server_def)
  have v: "fst (handle_request ?x ex_server ?e)
     = Inr (Response 400 [(''Access-Control-Allow-Origin'', ''*'')] ''error'')"
    by (simp add: model_defs example_defs)
  show ?thesis
    using get_unknown_sid [OF m q k] v by simp
qed

subsection \<open>GET without a sid: the transport\<close>

text \<open>
  C9 as the spec states it, that a GET request with no sid and no transport goes on to
  the handshake, fails for a request whose query has the JSONP marker: line 66 answers
  it with 400 before the transport is read. No session is created, where the handshake
  would have added the sid s1 to the table.
\<close>

theorem get_transport_counterexample:
  "ex_request ''GET'' ''j=1'' ''REQUEST_METHOD'' = Some ''GET'' \<and>
   sid_of (parse_qs ex_jsonp (query_string (ex_request ''GET'' ''j=1''))) = None \<and>
   parse_qs ex_jsonp (query_string (ex_request ''GET'' ''j=1'')) ''transport'' = None \<and>
   handle_request ex_jsonp ex_server (ex_request ''GET'' ''j=1'') =
     (Inr (Response 400 [(''Access-Control-Allow-Origin'', ''*'')] ''error''),
      warning ''JSONP requests are not supported'' ex_server) \<and>
   keys (snd (handle_request ex_jsonp ex_server (ex_request ''GET'' ''j=1''))) = [''a'', ''b''] \<and>
   keys (snd (handle_connect ex_jsonp ex_server (ex_request ''GET'' ''j=1'') ''polling'' False)) =
     [''a'', ''b'', ''s1'']"
  by (simp add: model_defs example_defs Let_def)

text \<open>
  C9, amended. A GET request with no sid whose transport is neither polling nor websocket
  is answered with status 400; the session table is left as it was (no session is
  created, its size is unchanged) and all the server does is log one warning. When the
  query has no transport the transport is polling, and the request goes on to the
  handshake (\<^verbatim>\<open>handle_request\<close> is \<^verbatim>\<open>_handle_connect\<close> for polling, finalized) unless
  its query has the JSONP marker; with the marker it is answered with 400, the table is
  left as it was and the one warning logged is the JSONP warning.
\<close>

theorem get_transport_amended:
  "environ ''REQUEST_METHOD'' = Some ''GET'' \<Longrightarrow>
   q = parse_qs x (query_string environ) \<Longrightarrow>
   sid_of q = None \<Longrightarrow>
     (transport_of q \<noteq> ''polling'' \<and> transport_of q \<noteq> ''websocket'' \<longrightarrow>
        (\<exists>hs b. fst (handle_request x srv environ) = Inr (Response 400 hs b)) \<and>
        sockets (snd (handle_request x srv environ)) = sockets srv \<and>
        (\<exists>m. trace (snd (handle_request x srv environ)) = trace srv @ [Warning m])) \<and>
     (q ''transport'' = None \<longrightarrow>
        transport_of q = ''polling'' \<and>
        (q ''j'' = None \<longrightarrow>
           handle_request x srv environ =
             (case handle_connect x srv environ ''polling'' (b64_of q) of
                (Inl e, srv') \<Rightarrow> (Inl e, srv')
              | (Inr r, srv') \<Rightarrow> (Inr (finalize x srv' environ r), srv'))) \<and>
        (q ''j'' \<noteq> None \<longrightarrow>
           (\<exists>hs b. fst (handle_request x srv environ) = Inr (Response 400 hs b)) \<and>
           sockets (snd (handle_request x srv environ)) = sockets srv \<and>
           trace (snd (handle_request x srv environ)) =
             trace srv @ [Warning ''JSONP requests are not supported'']))"
  by (auto simp: handle_request_def dispatch_def finalize_dict transport_of_def)

theorem get_transport_amended_witness:
  "fst (handle_request (ex_ext\<lparr>parse_qs := ex_parse_qs\<rparr>) ex_server (ex_request ''GET'' ''transport=udp''))
     = Inr (Response 400 [(''Access-Control-Allow-Origin'', ''*'')] ''error'') \<and>
   sockets (snd (handle_request (ex_ext\<lparr>parse_qs := ex_parse_qs\<rparr>) ex_server
     (ex_request ''GET'' ''transport=udp''))) = sockets ex_server \<and>
   transport_of (ex_parse_qs []) = ''polling'' \<and>
   handle_request (ex_ext\<lparr>parse_qs := ex_parse_qs\<rparr>) ex_server (ex_request ''GET'' []) =
     (case handle_connect (ex_ext\<lparr>parse_qs := ex_parse_qs\<rparr>) ex_server (ex_request ''GET'' [])
             ''polling'' False of
        (Inl e, srv') \<Rightarrow> (Inl e, srv')
      | (Inr r, srv') \<Rightarrow>
          (Inr (finalize (ex_ext\<lparr>parse_qs := ex_parse_qs\<rparr>) srv' (ex_request ''GET'' []) r), srv')) \<and>
   keys (snd (handle_request (ex_ext\<lparr>parse_qs := ex_parse_qs\<rparr>) ex_server (ex_request ''GET'' [])))
     = [''a'', ''b'', ''s1''] \<and>
   fst (handle_request ex_jsonp ex_server (ex_request ''GET'' ''j=1''))
     = Inr (Response 400 [(''Access-Control-Allow-Origin'', ''*'')] ''error'') \<and>
   sockets (snd (handle_request ex_jsonp ex_server (ex_request ''GET'' ''j=1''))) = sockets ex_server \<and>
   trace (snd (handle_request ex_jsonp ex_server (ex_request ''GET'' ''j=1''))) =
     [Warning ''JSONP requests are not supported'']"
proof -
  let ?x = "ex_ext\<lparr>parse_qs := ex_parse_qs\<rparr>"
  let ?u = "ex_request ''GET'' ''transport=udp''"
  let ?n = "ex_request ''GET'' []"
  let ?j = "ex_request ''GET'' ''j=1''"
  let ?qj = "[''j'' \<mapsto> (''1'', [])] :: query"
  have mu: "?u ''REQUEST_METHOD'' = Some ''GET''" and mn: "?n ''REQUEST_METHOD'' = Some ''GET''"
    and mj: "?j ''REQUEST_METHOD'' = Some ''GET''"
    by (simp_all add: ex_request_def)
  have qu: "ex_parse_qs ''transport=udp'' = parse_qs ?x (query_string ?u)"
    and qn: "ex_parse_qs [] = parse_qs ?x (query_string ?n)"
    and qj: "?qj = parse_qs ex_jsonp (query_string ?j)"
    by (simp_all add: ex_request_def query_string_def ex_jsonp_def)
  have su: "sid_of (ex_parse_qs ''transport=udp'') = None" and sn: "sid_of (ex_parse_qs []) = None"
    and sj: "sid_of ?qj = None"
    by (simp_all add: sid_of_def ex_parse_qs_def)
  have tu: "transport_of (ex_parse_qs ''transport=udp'') \<noteq> ''polling'' \<and>
      transport_of (ex_parse_qs ''transport=udp'') \<noteq> ''websocket''"
    by (simp add: transport_of_def ex_parse_qs_def)
  have tn: "ex_parse_qs [] ''transport'' = None" "ex_parse_qs [] ''j'' = None"
    "b64_of (ex_parse_qs []) = False"
    by (simp_all add: ex_parse_qs_def b64_of_def)
  have tj: "?qj ''transport'' = None" "?qj ''j'' \<noteq> None"
    by simp_all
  have v: "fst (handle_request ?x ex_server ?u)
     = Inr (Response 400 [(''Access-Control-Allow-Origin'', ''*'')] ''error'')"
    and vj: "fst (handle_request ex_jsonp ex_server ?j)
     = Inr (Response 400 [(''Access-Control-Allow-Origin'', ''*'')] ''error'')"
    by (simp_all add: model_defs example_defs)
  have w: "keys (snd (handle_request ?x ex_server ?n)) = [''a'', ''b'', ''s1'']"
    by (simp add: model_defs example_defs Let_def)
  have t: "trace ex_server = []"
    by (simp add: ex_server_def)
  show ?thesis
    using get_transport_amended [OF mu qu su, of ex_server]
      get_transport_amended [OF mn qn sn, of ex_server]
      get_transport_amended [OF mj qj sj, of ex_server]
      tu tn tj v vj w t
    by simp
qed

subsection \<open>GET with a sid: an I/O failure of the socket\<close>

text \<open>
  C6. For a GET request whose sid is in the session table, when the socket's
  \<^verbatim>\<open>handle_get_request\<close> raises \<^verbatim>\<open>IOError\<close> the answer is a response of status 400 (the
  exception does not leave \<^verbatim>\<open>handle_request\<close>), and the sid is removed from the
  session table: the table is the one before the request without that entry.
\<close>

theorem get_io_error:
  "environ ''REQUEST_METHOD'' = Some ''GET'' \<Longrightarrow>
   q = parse_qs x (query_string environ) \<Longrightarrow>
   q ''j'' = None \<Longrightarrow>
   sid_of q = Some k \<Longrightarrow>
   map_of (sockets srv) k = Some s \<Longrightarrow>
   fst (socket_get x s environ) = Inl IOError \<Longrightarrow>
     (\<exists>hs b. fst (handle_request x srv environ) = Inr (Response 400 hs b)) \<and>
     k \<notin> set (keys (snd (handle_request x srv environ))) \<and>
     sockets (snd (handle_request x srv environ)) = AList.delete k (sockets srv)"
proof -
  assume m: "environ ''REQUEST_METHOD'' = Some ''GET''"
    and q: "q = parse_qs x (query_string environ)"
    and j: "q ''j'' = None"
    and k: "sid_of q = Some k"
    and s: "map_of (sockets srv) k = Some s"
    and g: "fst (socket_get x s environ) = Inl IOError"
  obtain s' where g': "socket_get x s environ = (Inl IOError, s')"
    using g by (cases "socket_get x s environ") auto
  let ?srv = "store k s' (called (Get k) srv)"
  have in_tbl: "k \<in> set (keys ?srv)"
    using in_key [OF s] by (simp add: keys_store)
  have gs: "get_session x srv environ k (b64_of q) =
      (Inr (PyDict (bad_request x)), remove k ?srv)"
    using in_key [OF s] s g' in_tbl
    by (simp add: get_session_def get_socket_def purge_closed_absent keys_remove)
  have hr: "handle_request x srv environ =
      (Inr (finalize x (remove k ?srv) environ (PyDict (bad_request x))), remove k ?srv)"
    using m q j k gs by (simp add: handle_request_def dispatch_def)
  have tbl: "sockets (remove k ?srv) = AList.delete k (sockets srv)"
    by (simp add: remove_def store_def delete_update_same)
  show ?thesis
    using keys_remove [of k ?srv] tbl by (simp add: hr finalize_dict)
qed

theorem get_io_error_witness:
  "fst (socket_get (ex_ext\<lparr>parse_qs := ex_parse_qs, socket_get := (\<lambda>s e. (Inl IOError, s))\<rparr>)
         \<lparr>connected = True, closed = False, inner = 0\<rparr> (ex_request ''GET'' ''sid=a'')) = Inl IOError \<and>
   fst (handle_request (ex_ext\<lparr>parse_qs := ex_parse_qs, socket_get := (\<lambda>s e. (Inl IOError, s))\<rparr>)
         ex_server (ex_request ''GET'' ''sid=a''))
     = Inr (Response 400 [(''Access-Control-Allow-Origin'', ''*'')] ''error'') \<and>
   ''a'' \<notin> set (keys (snd (handle_request
         (ex_ext\<lparr>parse_qs := ex_parse_qs, socket_get := (\<lambda>s e. (Inl IOError, s))\<rparr>)
         ex_server (ex_request ''GET'' ''sid=a'')))) \<and>
   sockets (snd (handle_request
         (ex_ext\<lparr>parse_qs := ex_parse_qs, socket_get := (\<lambda>s e. (Inl IOError, s))\<rparr>)
         ex_server (ex_request ''GET'' ''sid=a'')))
     = [(''b'', \<lparr>connected = True, closed = False, inner = 2\<rparr>)]"
proof -
  let ?x = "ex_ext\<lparr>parse_qs := ex_parse_qs, socket_get := (\<lambda>s e. (Inl IOError, s))\<rparr>"
  let ?e = "ex_request ''GET'' ''sid=a''"
  let ?s = "\<lparr>connected = True, closed = False, inner = 0::nat\<rparr>"
  have m: "?e ''REQUEST_METHOD'' = Some ''GET''"
    by (simp add: ex_request_def)
  have q: "ex_parse_qs ''sid=a'' = parse_qs ?x (query_string ?e)"
    by (simp add: ex_request_def query_string_def)
  have j: "ex_parse_qs ''sid=a'' ''j'' = None"
    by (simp add: ex_parse_qs_def)
  have k: "sid_of (ex_parse_qs ''sid=a'') = Some ''a''"
    by (simp add: ex_parse_qs_def sid_of_def)
  have s: "map_of (sockets ex_server) ''a'' = Some ?s"
    by (simp add: ex_server_def)
  have g: "fst (socket_get ?x ?s ?e) = Inl IOError"
    by simp
  have v: "fst (handle_request ?x ex_server ?e)
     = Inr (Response 400 [(''Access-Control-Allow-Origin'', ''*'')] ''error'')"
    by (simp add: model_defs example_defs)
  have d: "AList.delete ''a'' (sockets ex_server) = [(''b'', \<lparr>connected = True, closed = False, inner = 2\<rparr>)]"
    by (simp add: ex_server_def AList.delete_eq)
  show ?thesis
    using get_io_error [OF m q j k s g] v d by simp
qed

subsection \<open>POST with a sid that is in the table\<close>



subsection \<open>A result of the dispatcher that is not a dictionary\<close>

text \<open>
  C7 as the spec states it, that such a result is returned unchanged, fails for a
  result that is false in a condition: the source returns \<^verbatim>\<open>r or []\<close>. When the socket's
  \<^verbatim>\<open>handle_get_request\<close> returns \<^verbatim>\<open>None\<close>, the dispatcher's result is \<^verbatim>\<open>None\<close> and
  \<^verbatim>\<open>handle_request\<close> returns an empty list.
\<close>

theorem passthrough_counterexample:
  "fst (dispatch (ex_ext\<lparr>parse_qs := ex_parse_qs, socket_get := (\<lambda>s e. (Inr PyNone, s))\<rparr>) ex_server
         (ex_request ''GET'' ''sid=a'') ''GET'' (ex_parse_qs ''sid=a'')) = Inr PyNone \<and>
   \<not> is_dict PyNone \<and>
   fst (handle_request (ex_ext\<lparr>parse_qs := ex_parse_qs, socket_get := (\<lambda>s e. (Inr PyNone, s))\<rparr>) ex_server
         (ex_request ''GET'' ''sid=a'')) = Inr (Passthrough (PyList [])) \<and>
   Passthrough (PyList []) \<noteq> Passthrough PyNone"
  by (simp add: model_defs example_defs Let_def)

text \<open>
  C7, amended. A result of the dispatcher that is not a dictionary is returned by
  \<^verbatim>\<open>handle_request\<close> unchanged when it is true in a condition, and as an empty list
  otherwise; in neither case is it compressed, given CORS headers or passed to
  \<^verbatim>\<open>make_response\<close>.
\<close>

theorem passthrough_amended:
  "environ ''REQUEST_METHOD'' = Some meth \<Longrightarrow>
   dispatch x srv environ meth (parse_qs x (query_string environ)) = (Inr r, srv') \<Longrightarrow>
   \<not> is_dict r \<Longrightarrow>
     handle_request x srv environ = (Inr (Passthrough (if truthy r then r else PyList [])), srv')"
  by (cases r) (simp_all add: handle_request_def finalize_def)

theorem passthrough_amended_witness:
  "handle_request (ex_ext\<lparr>parse_qs := ex_parse_qs, socket_get := (\<lambda>s e. (Inr (PyObj 7), s))\<rparr>) ex_server
         (ex_request ''GET'' ''sid=a'') =
     (Inr (Passthrough (PyObj 7)),
      called (Get ''a'') ex_server) \<and>
   handle_request (ex_ext\<lparr>parse_qs := ex_parse_qs, socket_get := (\<lambda>s e. (Inr PyNone, s))\<rparr>) ex_server
         (ex_request ''GET'' ''sid=a'') =
     (Inr (Passthrough (PyList [])),
      called (Get ''a'') ex_server)"
proof -
  let ?x = "ex_ext\<lparr>parse_qs := ex_parse_qs, socket_get := (\<lambda>s e. (Inr (PyObj 7), s))\<rparr>"
  let ?y = "ex_ext\<lparr>parse_qs := ex_parse_qs, socket_get := (\<lambda>s e. (Inr PyNone, s))\<rparr>"
  let ?e = "ex_request ''GET'' ''sid=a''"
  have m: "?e ''REQUEST_METHOD'' = Some ''GET''"
    by (simp add: ex_request_def)
  have dx: "dispatch ?x ex_server ?e ''GET'' (parse_qs ?x (query_string ?e)) =
      (Inr (PyObj 7), called (Get ''a'') ex_server)"
    by (simp add: model_defs example_defs Let_def)
  have dy: "dispatch ?y ex_server ?e ''GET'' (parse_qs ?y (query_string ?e)) =
      (Inr PyNone, called (Get ''a'') ex_server)"
    by (simp add: model_defs example_defs Let_def)
  show ?thesis
    using passthrough_amended [OF m dx] passthrough_amended [OF m dy] by simp
qed

subsection \<open>Compression\<close>

text \<open>
  C2 as the spec states it, that the header names the first match in the server's
  configured order of methods, fails: the source's loop runs over the request's
  encodings. For a server configured with gzip, deflate and a request that accepts
  deflate, gzip, the response is compressed with deflate, where the configured order
  gives gzip.
\<close>

theorem content_encoding_counterexample:
  "fst (handle_request (ex_ext\<lparr>parse_qs := ex_parse_qs\<rparr>) ex_server ex_accept) =
     Inr (Response 400
            [(''Content-Encoding'', ''deflate''), (''Access-Control-Allow-Origin'', ''*'')]
            ''deflate:error'') \<and>
   compression_methods ex_server = [''gzip'', ''deflate''] \<and>
   encodings ex_accept = [''deflate'', ''gzip''] \<and>
   spec_first_match (compression_methods ex_server) (encodings ex_accept) = Some ''gzip''"
  by (simp add: model_defs example_defs spec_first_match_def Let_def)

text \<open>
  C2, amended. For a response dictionary that has no Content-Encoding header of its own
  (and CORS headers that have none), the finalized response has a Content-Encoding header
  if and only if compression is enabled, the body is at least as long as the threshold and
  one of the request's encodings is among the configured methods. When it has one, the
  header names the first of the request's encodings, in the request's order, that is among
  the configured methods, it stands after the dictionary's headers and before the CORS
  headers, and the body is the compressed form of the dictionary's body under that
  method; when it has none, headers and body are the dictionary's.
\<close>

theorem content_encoding_amended:
  "''Content-Encoding'' \<notin> fst ` set (headers d) \<Longrightarrow>
   ''Content-Encoding'' \<notin> fst ` set (cors_headers x environ) \<Longrightarrow>
   finalize x srv environ (PyDict d) = Response st hs body \<Longrightarrow>
     ((''Content-Encoding'' \<in> fst ` set hs) =
        (http_compression srv \<and> compression_threshold srv \<le> length (response d) \<and>
         set (encodings environ) \<inter> set (compression_methods srv) \<noteq> {})) \<and>
     (''Content-Encoding'' \<in> fst ` set hs \<longrightarrow>
        (\<exists>e. find (\<lambda>e. e \<in> set (compression_methods srv)) (encodings environ) = Some e \<and>
             hs = headers d @ [(''Content-Encoding'', e)] @ cors_headers x environ \<and>
             body = compress x e (response d))) \<and>
     (''Content-Encoding'' \<notin> fst ` set hs \<longrightarrow>
        hs = headers d @ cors_headers x environ \<and> body = response d)"
proof -
  assume d: "''Content-Encoding'' \<notin> fst ` set (headers d)"
    and c: "''Content-Encoding'' \<notin> fst ` set (cors_headers x environ)"
    and f: "finalize x srv environ (PyDict d) = Response st hs body"
  let ?on = "http_compression srv \<and> compression_threshold srv \<le> length (response d)"
  let ?found = "find (\<lambda>e. e \<in> set (compression_methods srv)) (encodings environ)"
  show ?thesis
  proof (cases "?on \<and> ?found \<noteq> None")
    case True
    then obtain e where e: "?found = Some e" by auto
    have "compress_response x srv environ d =
        d\<lparr>response := compress x e (response d), headers := headers d @ [(''Content-Encoding'', e)]\<rparr>"
      using True e by (simp add: compress_response_def compress_first_find)
    then have "hs = headers d @ [(''Content-Encoding'', e)] @ cors_headers x environ"
      and "body = compress x e (response d)"
      using f by (simp_all add: finalize_dict)
    then show ?thesis
      using True e find_member_None [of "compression_methods srv" "encodings environ"] by auto
  next
    case False
    then have "compress_response x srv environ d = d"
      by (auto simp: compress_response_def compress_first_find)
    then have "hs = headers d @ cors_headers x environ" and "body = response d"
      using f by (simp_all add: finalize_dict)
    then show ?thesis
      using False d c find_member_None [of "compression_methods srv" "encodings environ"] by auto
  qed
qed

theorem content_encoding_amended_witness:
  "''Content-Encoding'' \<notin> fst ` set (headers (bad_request ex_ext)) \<and>
   ''Content-Encoding'' \<notin> fst ` set (cors_headers ex_ext ex_accept) \<and>
   finalize ex_ext ex_server ex_accept (PyDict (bad_request ex_ext)) =
     Response 400 [(''Content-Encoding'', ''deflate''), (''Access-Control-Allow-Origin'', ''*'')]
       ''deflate:error'' \<and>
   http_compression ex_server \<and>
   compression_threshold ex_server \<le> length (response (bad_request ex_ext)) \<and>
   set (encodings ex_accept) \<inter> set (compression_methods ex_server) \<noteq> {} \<and>
   find (\<lambda>e. e \<in> set (compression_methods ex_server)) (encodings ex_accept) = Some ''deflate''"
proof -
  have d: "''Content-Encoding'' \<notin> fst ` set (headers (bad_request ex_ext))"
    by (simp add: bad_request_def)
  have c: "''Content-Encoding'' \<notin> fst ` set (cors_headers ex_ext ex_accept)"
    by (simp add: ex_ext_def)
  have f: "finalize ex_ext ex_server ex_accept (PyDict (bad_request ex_ext)) =
     Response 400 [(''Content-Encoding'', ''deflate''), (''Access-Control-Allow-Origin'', ''*'')]
       ''deflate:error''"
    by (simp add: model_defs example_defs Let_def)
  have e: "find (\<lambda>e. e \<in> set (compression_methods ex_server)) (encodings ex_accept) = Some ''deflate''"
    by (simp add: model_defs example_defs)
  show ?thesis
    using content_encoding_amended [OF d c f] d c f e by simp
qed

subsection \<open>disconnect\<close>

text \<open>
  C3 as the spec states it, that \<^verbatim>\<open>disconnect\<close> with no sid tolerates a close that
  fails and leaves the table empty, fails: the loop has no handler. When the first
  socket's \<^verbatim>\<open>close\<close> raises, the exception leaves \<^verbatim>\<open>disconnect\<close>, the table is as it
  was and the second socket's \<^verbatim>\<open>close\<close> was never called.
\<close>

theorem disconnect_counterexample:
  "fst (disconnect
          (ex_ext\<lparr>socket_close :=
             (\<lambda>s. if inner s = 0 then (Inl (OtherError ''boom''), s) else (Inr (), s\<lparr>closed := True\<rparr>))\<rparr>)
          ex_server None) = Inl (OtherError ''boom'') \<and>
   sockets (snd (disconnect
          (ex_ext\<lparr>socket_close :=
             (\<lambda>s. if inner s = 0 then (Inl (OtherError ''boom''), s) else (Inr (), s\<lparr>closed := True\<rparr>))\<rparr>)
          ex_server None)) = sockets ex_server \<and>
   sockets ex_server \<noteq> [] \<and>
   trace (snd (disconnect
          (ex_ext\<lparr>socket_close :=
             (\<lambda>s. if inner s = 0 then (Inl (OtherError ''boom''), s) else (Inr (), s\<lparr>closed := True\<rparr>))\<rparr>)
          ex_server None)) = [Call (Close ''a'') [''a'', ''b'']]"
  by (simp add: model_defs example_defs Let_def)

text \<open>
  C3, amended. \<^verbatim>\<open>disconnect\<close> with no sid calls \<^verbatim>\<open>close\<close> on the entries of the
  session table in the table's order. When every \<^verbatim>\<open>close\<close> returns, every entry was
  closed and the table is left empty. The first \<^verbatim>\<open>close\<close> that raises aborts the bulk
  operation: its exception leaves \<^verbatim>\<open>disconnect\<close>, no later entry is closed and the
  table keeps all its keys. \<^verbatim>\<open>disconnect\<close> with a sid that is in the table calls
  \<^verbatim>\<open>close\<close> on that entry and no other. When that \<^verbatim>\<open>close\<close> returns, exactly that
  entry is removed and every other key maps to what it mapped to; when it raises, the
  exception leaves \<^verbatim>\<open>disconnect\<close> and the entry stays.
\<close>

theorem disconnect_amended:
  "((\<forall>(k, s) \<in> set (sockets srv). fst (socket_close x s) = Inr ()) \<longrightarrow>
      fst (disconnect x srv None) = Inr () \<and>
      sockets (snd (disconnect x srv None)) = [] \<and>
      trace (snd (disconnect x srv None)) =
        trace srv @ map (\<lambda>k. Call (Close k) (keys srv)) (keys srv)) \<and>
   (sockets srv = pre @ (kf, sf) # post \<and>
    (\<forall>(k, s) \<in> set pre. fst (socket_close x s) = Inr ()) \<and>
    fst (socket_close x sf) = Inl e \<longrightarrow>
      fst (disconnect x srv None) = Inl e \<and>
      keys (snd (disconnect x srv None)) = keys srv \<and>
      sockets (snd (disconnect x srv None)) \<noteq> [] \<and>
      trace (snd (disconnect x srv None)) =
        trace srv @ map (\<lambda>k. Call (Close k) (keys srv)) (map fst pre @ [kf])) \<and>
   (map_of (sockets srv) k = Some s \<and> fst (socket_close x s) = Inr () \<longrightarrow>
      fst (disconnect x srv (Some k)) = Inr () \<and>
      sockets (snd (disconnect x srv (Some k))) = AList.delete k (sockets srv) \<and>
      k \<notin> set (keys (snd (disconnect x srv (Some k)))) \<and>
      (\<forall>k'. k' \<noteq> k \<longrightarrow>
         map_of (sockets (snd (disconnect x srv (Some k)))) k' = map_of (sockets srv) k') \<and>
      trace (snd (disconnect x srv (Some k))) = trace srv @ [Call (Close k) (keys srv)]) \<and>
   (map_of (sockets srv) k = Some s \<and> fst (socket_close x s) = Inl e' \<longrightarrow>
      fst (disconnect x srv (Some k)) = Inl e' \<and>
      keys (snd (disconnect x srv (Some k))) = keys srv \<and>
      sockets (snd (disconnect x srv (Some k))) =
        AList.update k (snd (socket_close x s)) (sockets srv) \<and>
      trace (snd (disconnect x srv (Some k))) = trace srv @ [Call (Close k) (keys srv)])"
proof (intro conjI impI)
  assume a: "\<forall>(k, s) \<in> set (sockets srv). fst (socket_close x s) = Inr ()"
  have sub: "set (map fst (sockets srv)) \<subseteq> set (keys srv)"
    by (simp add: keys_def)
  note r = close_each_ok [OF a sub]
  obtain srv' where c: "close_each x srv (sockets srv) = (Inr (), srv')"
    using r by (cases "close_each x srv (sockets srv)") auto
  have d: "disconnect x srv None = (Inr (), srv'\<lparr>sockets := []\<rparr>)"
    using c by (simp add: disconnect_def)
  show "fst (disconnect x srv None) = Inr ()"
    and "sockets (snd (disconnect x srv None)) = []"
    by (simp_all add: d)
  show "trace (snd (disconnect x srv None)) =
      trace srv @ map (\<lambda>k. Call (Close k) (keys srv)) (keys srv)"
    using r c by (simp add: d keys_def)
next
  assume f: "sockets srv = pre @ (kf, sf) # post \<and>
    (\<forall>(k, s) \<in> set pre. fst (socket_close x s) = Inr ()) \<and>
    fst (socket_close x sf) = Inl e"
  have sub: "set (map fst (pre @ (kf, sf) # post)) \<subseteq> set (keys srv)"
    using f by (simp add: keys_def)
  have r: "fst (close_each x srv (sockets srv)) = Inl e \<and>
     keys (snd (close_each x srv (sockets srv))) = keys srv \<and>
     trace (snd (close_each x srv (sockets srv))) =
       trace srv @ map (\<lambda>k. Call (Close k) (keys srv)) (map fst pre @ [kf])"
    using close_each_fail [of pre x sf e kf post srv] f sub by simp
  obtain srv' where c: "close_each x srv (sockets srv) = (Inl e, srv')"
    using r by (cases "close_each x srv (sockets srv)") auto
  have d: "disconnect x srv None = (Inl e, srv')"
    using c by (simp add: disconnect_def)
  show "fst (disconnect x srv None) = Inl e"
    by (simp add: d)
  show ks: "keys (snd (disconnect x srv None)) = keys srv"
    using r c by (simp add: d)
  show "sockets (snd (disconnect x srv None)) \<noteq> []"
    using ks f by (auto simp: keys_def)
  show "trace (snd (disconnect x srv None)) =
      trace srv @ map (\<lambda>k. Call (Close k) (keys srv)) (map fst pre @ [kf])"
    using r c by (simp add: d)
next
  assume b: "map_of (sockets srv) k = Some s \<and> fst (socket_close x s) = Inr ()"
  then obtain s' where c: "socket_close x s = (Inr (), s')"
    by (cases "socket_close x s") auto
  have d: "disconnect x srv (Some k) = (Inr (), remove k (store k s' (called (Close k) srv)))"
    using b c by (simp add: disconnect_def get_socket_def)
  have tbl: "sockets (remove k (store k s' (called (Close k) srv))) = AList.delete k (sockets srv)"
    by (simp add: remove_def store_def delete_update_same)
  show "fst (disconnect x srv (Some k)) = Inr ()"
    by (simp add: d)
  show "sockets (snd (disconnect x srv (Some k))) = AList.delete k (sockets srv)"
    by (simp add: d tbl)
  show "k \<notin> set (keys (snd (disconnect x srv (Some k))))"
    by (simp add: d keys_remove)
  show "\<forall>k'. k' \<noteq> k \<longrightarrow>
      map_of (sockets (snd (disconnect x srv (Some k)))) k' = map_of (sockets srv) k'"
    by (simp add: d tbl delete_conv')
  show "trace (snd (disconnect x srv (Some k))) = trace srv @ [Call (Close k) (keys srv)]"
    by (simp add: d remove_def store_def called_def log_def)
next
  assume b: "map_of (sockets srv) k = Some s \<and> fst (socket_close x s) = Inl e'"
  then obtain s' where c: "socket_close x s = (Inl e', s')"
    by (cases "socket_close x s") auto
  have d: "disconnect x srv (Some k) = (Inl e', store k s' (called (Close k) srv))"
    using b c by (simp add: disconnect_def get_socket_def)
  show "fst (disconnect x srv (Some k)) = Inl e'"
    by (simp add: d)
  show "keys (snd (disconnect x srv (Some k))) = keys srv"
    using in_key [of srv k s] b by (simp add: d keys_store)
  show "sockets (snd (disconnect x srv (Some k))) =
      AList.update k (snd (socket_close x s)) (sockets srv)"
    by (simp add: d c store_def)
  show "trace (snd (disconnect x srv (Some k))) = trace srv @ [Call (Close k) (keys srv)]"
    by (simp add: d)
qed

theorem disconnect_amended_witness:
  "fst (disconnect ex_ext ex_server None) = Inr () \<and>
   sockets (snd (disconnect ex_ext ex_server None)) = [] \<and>
   trace (snd (disconnect ex_ext ex_server None)) =
     [Call (Close ''a'') [''a'', ''b''], Call (Close ''b'') [''a'', ''b'']] \<and>
   fst (disconnect ex_close_fails ex_server None) = Inl (OtherError ''boom'') \<and>
   keys (snd (disconnect ex_close_fails ex_server None)) = [''a'', ''b''] \<and>
   trace (snd (disconnect ex_close_fails ex_server None)) =
     [Call (Close ''a'') [''a'', ''b''], Call (Close ''b'') [''a'', ''b'']] \<and>
   fst (disconnect ex_ext ex_server (Some ''a'')) = Inr () \<and>
   sockets (snd (disconnect ex_ext ex_server (Some ''a''))) =
     [(''b'', \<lparr>connected = True, closed = False, inner = 2\<rparr>)] \<and>
   trace (snd (disconnect ex_ext ex_server (Some ''a''))) = [Call (Close ''a'') [''a'', ''b'']] \<and>
   fst (disconnect ex_close_fails ex_server (Some ''b'')) = Inl (OtherError ''boom'') \<and>
   keys (snd (disconnect ex_close_fails ex_server (Some ''b''))) = [''a'', ''b''] \<and>
   trace (snd (disconnect ex_close_fails ex_server (Some ''b''))) = [Call (Close ''b'') [''a'', ''b'']]"
proof -
  let ?a = "\<lparr>connected = True, closed = False, inner = 0::nat\<rparr>"
  let ?b = "\<lparr>connected = True, closed = False, inner = 2::nat\<rparr>"
  have all_ok: "\<forall>(k, s) \<in> set (sockets ex_server). fst (socket_close ex_ext s) = Inr ()"
    by (simp add: ex_ext_def)
  have one_ok: "map_of (sockets ex_server) ''a'' = Some ?a \<and> fst (socket_close ex_ext ?a) = Inr ()"
    by (simp add: ex_server_def ex_ext_def)
  have second_fails: "sockets ex_server = [(''a'', ?a)] @ (''b'', ?b) # [] \<and>
      (\<forall>(k, s) \<in> set [(''a'', ?a)]. fst (socket_close ex_close_fails s) = Inr ()) \<and>
      fst (socket_close ex_close_fails ?b) = Inl (OtherError ''boom'')"
    by (simp add: ex_server_def ex_close_fails_def)
  have one_fails: "map_of (sockets ex_server) ''b'' = Some ?b \<and>
      fst (socket_close ex_close_fails ?b) = Inl (OtherError ''boom'')"
    by (simp add: ex_server_def ex_close_fails_def)
  have k: "keys ex_server = [''a'', ''b'']" and t: "trace ex_server = []"
    by (simp_all add: keys_def ex_server_def)
  have d: "AList.delete ''a'' (sockets ex_server) = [(''b'', ?b)]"
    by (simp add: ex_server_def AList.delete_eq)
  show ?thesis
    using disconnect_amended [of ex_server ex_ext "[]" "''a''" ?a "[]" "OtherError ''boom''" "''a''" ?a "OtherError ''boom''"]
      disconnect_amended [of ex_server ex_close_fails "[(''a'', ?a)]" "''b''" ?b "[]" "OtherError ''boom''"
        "''b''" ?b "OtherError ''boom''"]
      all_ok one_ok second_fails one_fails k t d
    by simp
qed

subsection \<open>The handshake\<close>

text \<open>
  C4. \<^verbatim>\<open>_handle_connect\<close> puts the new socket into the session table under the fresh sid
  before anything else. A lookup of the sid in the table so made returns the new socket.
  The first call the handshake makes is the send of the OPEN packet, made with the sid
  among the table's keys; every later call of the handshake is made with the sid among
  the keys; when the send returns and a connect handler is registered, the next call is
  that handler's. The table \<^verbatim>\<open>_handle_connect\<close> leaves, however it ends, is the table
  it found with the sid mapped to the session's socket. In particular a send that raises
  and a connect handler that raises each leave behind a table in which the lookup of the
  sid returns the socket as the send left it: the insertion came before both.
\<close>

theorem connect_visible:
  "let k = generate_id x;
       s = new_socket x k;
       srv1 = store k s srv;
       pkt = open_packet x srv1 k transport;
       res = handle_connect x srv environ transport b64
   in get_socket srv1 k = Inr s \<and>
      ptype pkt = OPEN \<and>
      (\<exists>rest.
         trace (snd res) = trace srv @ Call (Send k pkt) (keys srv1) # rest \<and>
         k \<in> set (keys srv1) \<and>
         (\<forall>c ks. Call c ks \<in> set rest \<longrightarrow> k \<in> set ks) \<and>
         (\<forall>h. fst (socket_send x s pkt) = Inr () \<and> handlers srv ''connect'' = Some h \<longrightarrow>
            (\<exists>ks rest'. rest = Call (Invoke ''connect'' k) ks # rest'))) \<and>
      k \<in> set (keys (snd res)) \<and>
      (\<exists>s'. map_of (sockets (snd res)) = (map_of (sockets srv))(k \<mapsto> s')) \<and>
      (\<forall>e. fst (socket_send x s pkt) = Inl e \<longrightarrow>
         fst res = Inl e \<and> get_socket (snd res) k = Inr (snd (socket_send x s pkt))) \<and>
      (\<forall>h e. fst (socket_send x s pkt) = Inr () \<and> handlers srv ''connect'' = Some h \<and>
           run h k environ = Inl e \<longrightarrow>
         fst res = Inl e \<and> get_socket (snd res) k = Inr (snd (socket_send x s pkt)))"
proof -
  define k where "k = generate_id x"
  define s where "s = new_socket x k"
  define srv1 where "srv1 = store k s srv"
  define pkt where "pkt = open_packet x srv1 k transport"
  obtain sent s1 where snd1: "socket_send x s pkt = (sent, s1)"
    by (cases "socket_send x s pkt")
  define srv2 where "srv2 = store k s1 (called (Send k pkt) srv1)"
  have k1: "k \<in> set (keys srv1)"
    by (simp add: srv1_def key_store)
  have k2: "k \<in> set (keys srv2)"
    by (simp add: srv2_def key_store)
  have t2: "trace srv2 = trace srv @ [Call (Send k pkt) (keys srv1)]"
    by (simp add: srv2_def srv1_def)
  have h2: "handlers srv2 = handlers srv"
    by (simp add: srv2_def srv1_def)
  obtain r srv3 where tr: "trigger_event srv2 ''connect'' k environ = (r, srv3)"
    by (cases "trigger_event srv2 ''connect'' k environ")
  note te = trigger_event_result [OF tr]
  have k3: "k \<in> set (keys srv3)"
    using te k2 by (simp add: keys_def)
  have hc: "handle_connect x srv environ transport b64 =
      (case sent of
         Inl e \<Rightarrow> (Inl e, srv2)
       | Inr u \<Rightarrow>
           (case r of
              Inl e \<Rightarrow> (Inl e, srv3)
            | Inr v \<Rightarrow>
                if transport = ''websocket'' then
                  (fst (socket_get x s1 environ),
                   store k (snd (socket_get x s1 environ)) (called (Get k) srv3))
                else
                  (case fst (socket_poll x (s1\<lparr>connected := True\<rparr>)) of
                     Inl e \<Rightarrow> Inl e
                   | Inr packets \<Rightarrow> Inr (PyDict (ok x (Some packets) (cookie_headers srv3 k) b64)),
                   store k (snd (socket_poll x (s1\<lparr>connected := True\<rparr>)))
                     (called (Poll k) (store k (s1\<lparr>connected := True\<rparr>) srv3)))))"
    using snd1 tr te unfolding srv2_def pkt_def srv1_def s_def k_def
    by (auto simp: handle_connect_def Let_def split: sum.splits prod.splits)
  let ?inv = "case handlers srv ''connect'' of None \<Rightarrow> [] | Some h \<Rightarrow> [Call (Invoke ''connect'' k) (keys srv2)]"
  have t3: "trace srv3 = trace srv @ Call (Send k pkt) (keys srv1) # ?inv"
    using te by (simp add: t2 h2)
  have "\<exists>rest. trace (snd (handle_connect x srv environ transport b64)) =
        trace srv @ Call (Send k pkt) (keys srv1) # rest \<and>
      (\<forall>c ks'. Call c ks' \<in> set rest \<longrightarrow> k \<in> set ks') \<and>
      (\<forall>h. sent = Inr () \<and> handlers srv ''connect'' = Some h \<longrightarrow>
          (\<exists>ks' rest'. rest = Call (Invoke ''connect'' k) ks' # rest'))"
  proof (cases sent)
    case (Inl e)
    then show ?thesis unfolding hc by (simp add: t2)
  next
    case (Inr u)
    show ?thesis
    proof (cases r)
      case (Inl e)
      then show ?thesis
        unfolding hc using Inr k2 by (auto simp: t3 split: option.splits)
    next
      case (Inr v)
      show ?thesis
      proof (cases "transport = ''websocket''")
        case True
        then show ?thesis
          unfolding hc using \<open>sent = Inr u\<close> Inr k2 k3 by (auto simp: t3 split: option.splits)
      next
        case False
        then show ?thesis
          unfolding hc using \<open>sent = Inr u\<close> Inr k2 k3
          by (auto simp: t3 keys_store_in split: option.splits)
      qed
    qed
  qed
  moreover have "get_socket srv1 k = Inr s"
    by (simp add: get_socket_def srv1_def store_def update_conv')
  moreover have "ptype pkt = OPEN"
    by (simp add: pkt_def open_packet_def)
  moreover have m2: "map_of (sockets srv2) = (map_of (sockets srv))(k \<mapsto> s1)"
    by (simp add: srv2_def srv1_def map_of_store)
  have m3: "map_of (sockets srv3) = (map_of (sockets srv))(k \<mapsto> s1)"
    using te m2 by simp
  have fin: "\<exists>s'. map_of (sockets (snd (handle_connect x srv environ transport b64))) =
      (map_of (sockets srv))(k \<mapsto> s')"
    unfolding hc using m2 m3 by (auto simp: map_of_store split: sum.splits)
  moreover have "k \<in> set (keys (snd (handle_connect x srv environ transport b64)))"
  proof -
    obtain s' where "map_of (sockets (snd (handle_connect x srv environ transport b64))) k = Some s'"
      using fin by auto
    then show ?thesis by (rule in_key)
  qed
  moreover have "\<forall>e. sent = Inl e \<longrightarrow>
      fst (handle_connect x srv environ transport b64) = Inl e \<and>
      get_socket (snd (handle_connect x srv environ transport b64)) k = Inr s1"
    unfolding hc using m2 by (auto simp: get_socket_def)
  moreover have "\<forall>h e. sent = Inr () \<and> handlers srv ''connect'' = Some h \<and> run h k environ = Inl e \<longrightarrow>
      fst (handle_connect x srv environ transport b64) = Inl e \<and>
      get_socket (snd (handle_connect x srv environ transport b64)) k = Inr s1"
  proof (intro allI impI)
    fix h e
    assume a: "sent = Inr () \<and> handlers srv ''connect'' = Some h \<and> run h k environ = Inl e"
    have "trigger_event srv2 ''connect'' k environ = (Inl e, called (Invoke ''connect'' k) srv2)"
      using a by (simp add: trigger_event_eq h2)
    then have "r = Inl e" and "srv3 = called (Invoke ''connect'' k) srv2"
      using tr by simp_all
    then show "fst (handle_connect x srv environ transport b64) = Inl e \<and>
        get_socket (snd (handle_connect x srv environ transport b64)) k = Inr s1"
      unfolding hc using a m2 by (simp add: get_socket_def)
  qed
  ultimately show ?thesis
    using k1 snd1 unfolding Let_def pkt_def srv1_def s_def k_def by auto
qed


theorem connect_visible_witness:
  "get_socket (store ''s1'' \<lparr>connected = False, closed = False, inner = 0\<rparr> (ex_handlers (PyBool True) False))
     ''s1'' = Inr \<lparr>connected = False, closed = False, inner = 0\<rparr> \<and>
   trace (snd (handle_connect ex_ext (ex_handlers (PyBool True) False) (ex_request ''GET'' []) ''polling'' False)) =
     [Call (Send ''s1'' \<lparr>ptype = OPEN, data = OpenInfo ''s1'' [''websocket''] 60000 25000, binary = None\<rparr>)
        [''a'', ''b'', ''s1''],
      Call (Invoke ''connect'' ''s1'') [''a'', ''b'', ''s1''],
      Call (Poll ''s1'') [''a'', ''b'', ''s1'']] \<and>
   keys (snd (handle_connect ex_ext (ex_handlers (PyBool True) False) (ex_request ''GET'' []) ''polling'' False)) =
     [''a'', ''b'', ''s1''] \<and>
   fst (handle_connect ex_send_fails ex_server (ex_request ''GET'' []) ''polling'' False) = Inl IOError \<and>
   get_socket (snd (handle_connect ex_send_fails ex_server (ex_request ''GET'' []) ''polling'' False)) ''s1'' =
     Inr \<lparr>connected = False, closed = False, inner = 9\<rparr> \<and>
   fst (handle_connect ex_ext ex_handler_raises (ex_request ''GET'' []) ''polling'' False) =
     Inl (OtherError ''no'') \<and>
   get_socket (snd (handle_connect ex_ext ex_handler_raises (ex_request ''GET'' []) ''polling'' False)) ''s1'' =
     Inr \<lparr>connected = False, closed = False, inner = 1\<rparr>"
proof -
  let ?e = "ex_request ''GET'' []"
  let ?ok = "ex_handlers (PyBool True) False"
  have v: "trace (snd (handle_connect ex_ext ?ok ?e ''polling'' False)) =
     [Call (Send ''s1'' \<lparr>ptype = OPEN, data = OpenInfo ''s1'' [''websocket''] 60000 25000, binary = None\<rparr>)
        [''a'', ''b'', ''s1''],
      Call (Invoke ''connect'' ''s1'') [''a'', ''b'', ''s1''],
      Call (Poll ''s1'') [''a'', ''b'', ''s1'']]"
    and w: "keys (snd (handle_connect ex_ext ?ok ?e ''polling'' False)) = [''a'', ''b'', ''s1'']"
    by (simp_all add: model_defs example_defs Let_def)
  have g: "generate_id ex_ext = ''s1''" "generate_id ex_send_fails = ''s1''"
    "new_socket ex_ext ''s1'' = \<lparr>connected = False, closed = False, inner = 0\<rparr>"
    "new_socket ex_send_fails ''s1'' = \<lparr>connected = False, closed = False, inner = 0\<rparr>"
    by (simp_all add: ex_ext_def ex_send_fails_def)
  have s_ok: "\<And>srv. socket_send ex_ext \<lparr>connected = False, closed = False, inner = 0\<rparr>
        (open_packet ex_ext srv ''s1'' ''polling'') =
      (Inr (), \<lparr>connected = False, closed = False, inner = 1\<rparr>)"
    by (simp add: ex_ext_def)
  have s_fails: "\<And>srv. socket_send ex_send_fails \<lparr>connected = False, closed = False, inner = 0\<rparr>
        (open_packet ex_send_fails srv ''s1'' ''polling'') =
      (Inl IOError, \<lparr>connected = False, closed = False, inner = 9\<rparr>)"
    by (simp add: ex_ext_def ex_send_fails_def)
  have h_ok: "handlers ?ok ''connect'' = Some (Handler False (\<lambda>k e. Inr (PyBool True)))"
    by (simp add: ex_handlers_def)
  have h_raises: "handlers ex_handler_raises ''connect'' =
      Some (Handler False (\<lambda>k e. Inl (OtherError ''no'')))"
    by (simp add: ex_handler_raises_def)
  show ?thesis
    using connect_visible [of ex_ext ?ok "''polling''" ?e False]
      connect_visible [of ex_send_fails ex_server "''polling''" ?e False]
      connect_visible [of ex_ext ex_handler_raises "''polling''" ?e False]
      v w g s_ok s_fails h_ok h_raises
    by (simp add: Let_def)
qed

text \<open>
  C1. The spec has a connect handler that returns \<^verbatim>\<open>False\<close> answered with 401 and its
  session deleted, and \<^verbatim>\<open>_handle_connect\<close> tests for it (line 152). But
  \<^verbatim>\<open>_trigger_event\<close> returns \<^verbatim>\<open>None\<close> whatever the handler returns (lemma
  \<open>trigger_event_returns_None\<close>), so the test never holds: with a handler that returns
  \<^verbatim>\<open>False\<close>, coroutine or not, the handshake is answered with 200 and the new sid stays
  in the session table.
\<close>

theorem connect_rejection_ignored:
  "run (Handler False (\<lambda>k e. Inr (PyBool False))) ''s1'' (ex_request ''GET'' []) = Inr (PyBool False) \<and>
   fst (handle_request ex_ext (ex_handlers (PyBool False) False) (ex_request ''GET'' [])) =
     Inr (Response 200 [(''Set-Cookie'', ''io=s1''), (''Access-Control-Allow-Origin'', ''*'')] []) \<and>
   keys (snd (handle_request ex_ext (ex_handlers (PyBool False) False) (ex_request ''GET'' []))) =
     [''a'', ''b'', ''s1''] \<and>
   fst (handle_request ex_ext (ex_handlers (PyBool False) True) (ex_request ''GET'' [])) =
     Inr (Response 200 [(''Set-Cookie'', ''io=s1''), (''Access-Control-Allow-Origin'', ''*'')] []) \<and>
   keys (snd (handle_request ex_ext (ex_handlers (PyBool False) True) (ex_request ''GET'' []))) =
     [''a'', ''b'', ''s1'']"
  by (simp add: model_defs example_defs Let_def)

end
